theory Spec2Isabelle
  imports Main
begin

section \<open>tokenizer/types.ts\<close>

text \<open>
  \<^verbatim>\<open>TokenType = string | 'end_of_input'\<close> is an open string tag. A token is an object with
  the fields \<^verbatim>\<open>value\<close>, \<^verbatim>\<open>type\<close> and \<^verbatim>\<open>position\<close>; the field names carry the suffix
  \<open>_tok\<close> here because \<open>value\<close>, \<open>type\<close> and \<open>position\<close> are taken.
  Line and column numbers start at 1 and are only ever incremented, so they are \<open>nat\<close>.
\<close>

type_synonym TokenType = string

record TokenPosition =
  line :: nat
  column :: nat

record Token =
  value_tok :: string
  type_tok :: TokenType
  position_tok :: TokenPosition

section \<open>parsers/ParserError.ts\<close>

text \<open>
  \<^verbatim>\<open>ParserErrorPosition = { line, column, position }\<close>: a source position together with
  the index into the token stream.
\<close>

record ParserErrorPosition = TokenPosition +
  position_err :: nat

text \<open>
  What a JavaScript \<^verbatim>\<open>throw\<close> can carry in this library: the \<^verbatim>\<open>Error\<close> of the tokenizer,
  the \<^verbatim>\<open>ParserError\<close> of the runner (message and \<^verbatim>\<open>location\<close>), the \<^verbatim>\<open>TypeError\<close> the
  engine raises when a property of \<^verbatim>\<open>null\<close> or \<^verbatim>\<open>undefined\<close> is read (the string names
  the property that was read), and the \<^verbatim>\<open>RangeError\<close> the engine raises when an array
  cannot grow.
\<close>

datatype JsError =
  Error string
  | TypeError string
  | RangeError string
  | ParserError string ParserErrorPosition

text \<open>Decimal rendering of a number inside a template string.\<close>

fun string_of_nat :: "nat \<Rightarrow> string" where
  "string_of_nat n =
     (if n < 10 then [char_of (48 + n)]
      else string_of_nat (n div 10) @ [char_of (48 + n mod 10)])"

declare string_of_nat.simps [simp del]

text \<open>
  The constructor of \<^verbatim>\<open>ParserError\<close>:
  \<^verbatim>\<open>super(`Parser Error [${location.line}:${location.column}]: ${message}`)\<close> and
  \<^verbatim>\<open>this.location = location\<close>.
\<close>

definition new_ParserError :: "string \<Rightarrow> ParserErrorPosition \<Rightarrow> JsError" where
  "new_ParserError message location =
     ParserError
       (''Parser Error ['' @ string_of_nat (line location) @ '':''
          @ string_of_nat (column location) @ '']: '' @ message)
       location"

section \<open>tokenizer/Tokenizer.ts\<close>

text \<open>
  A matcher is a string or a \<^verbatim>\<open>RegExp\<close> object. Of a \<^verbatim>\<open>RegExp\<close> the tokenizer uses two
  things: its identity as a key of the \<^verbatim>\<open>Map\<close> (\<open>objectId\<close>), and \<^verbatim>\<open>matcher.test(char)\<close> on
  a string of one character (\<open>test\<close>).
  The patterns carry no \<^verbatim>\<open>g\<close> or \<^verbatim>\<open>y\<close> flag, so \<^verbatim>\<open>test\<close> keeps no state between calls.
\<close>

datatype RegExp = RegExp (objectId: nat) (test: "char \<Rightarrow> bool")

datatype Matcher = StringMatcher string | RegExpMatcher RegExp

text \<open>The exported patterns \<^verbatim>\<open>/[a-zA-Z]/\<close>, \<^verbatim>\<open>/[0-9]/\<close> and \<^verbatim>\<open>/\n/\<close>.\<close>

definition LetterRegex :: RegExp where
  "LetterRegex =
     RegExp 0 (\<lambda>c. c \<in> set ''abcdefghijklmnopqrstuvwxyzABCDEFGHIJKLMNOPQRSTUVWXYZ'')"

definition DigitRegex :: RegExp where
  "DigitRegex = RegExp 1 (\<lambda>c. c \<in> set ''0123456789'')"

definition NewLineRegex :: RegExp where
  "NewLineRegex = RegExp 3 (\<lambda>c. c = CHR 0x0A)"

text \<open>
  \<^verbatim>\<open>tokenTypeMatchers: Map<string | RegExp, TokenType>\<close>. A \<^verbatim>\<open>Map\<close> iterates in insertion
  order, so it is the list of its entries. Keys are compared as \<^verbatim>\<open>Map\<close> does: strings by
  value, objects by identity. \<^verbatim>\<open>Map.set\<close> on a key that is present replaces the value in
  place and appends otherwise.
\<close>

fun sameKey :: "Matcher \<Rightarrow> Matcher \<Rightarrow> bool" where
  "sameKey (StringMatcher a) (StringMatcher b) = (a = b)"
| "sameKey (RegExpMatcher r) (RegExpMatcher r') = (objectId r = objectId r')"
| "sameKey _ _ = False"

fun map_set :: "(Matcher \<times> TokenType) list \<Rightarrow> Matcher \<Rightarrow> TokenType \<Rightarrow> (Matcher \<times> TokenType) list" where
  "map_set [] k v = [(k, v)]"
| "map_set ((k', v') # entries) k v =
     (if sameKey k' k then (k', v) # entries else (k', v') # map_set entries k v)"

record Tokenizer =
  tokenTypeMatchers :: "(Matcher \<times> TokenType) list"
  newLineTokenType :: "TokenType option"

text \<open>\<^verbatim>\<open>new Tokenizer()\<close>: an empty map and no newline type.\<close>

definition new_Tokenizer :: Tokenizer where
  "new_Tokenizer = \<lparr>tokenTypeMatchers = [], newLineTokenType = None\<rparr>"

definition withTokenType :: "Matcher \<Rightarrow> TokenType \<Rightarrow> Tokenizer \<Rightarrow> Tokenizer" where
  "withTokenType matcher type tk =
     tk\<lparr>tokenTypeMatchers := map_set (tokenTypeMatchers tk) matcher type\<rparr>"

text \<open>
  The \<^verbatim>\<open>for (const [matcher, type] of this.tokenTypeMatchers)\<close> loop of \<^verbatim>\<open>tokenize\<close>, for
  one character. Its body has three exits and none of them continues the loop:
  \<^verbatim>\<open>
      if (typeof matcher === 'string' && char === matcher) { tokens.push(..); break; }
      if (matcher instanceof RegExp && matcher.test(char)) { tokens.push(..); break; }
      throw new Error(`No token type matched for character: ${char}`);
  \<close>
  The result is the type of the token to push (\<open>Some\<close>), nothing to push when the map is
  empty (\<open>None\<close>), or the thrown error. The entries after the first are never reached.
\<close>

fun matcherMatches :: "Matcher \<Rightarrow> char \<Rightarrow> bool" where
  "matcherMatches (StringMatcher m) char = ([char] = m)"
| "matcherMatches (RegExpMatcher r) char = test r char"

fun forMatchers :: "(Matcher \<times> TokenType) list \<Rightarrow> char \<Rightarrow> JsError + TokenType option" where
  "forMatchers [] char = Inr None"
| "forMatchers ((matcher, type) # entries) char =
     (if matcherMatches matcher char then Inr (Some type)
      else Inl (Error (''No token type matched for character: '' @ [char])))"

text \<open>
  \<^verbatim>\<open>input.split('').reduce((tokens, char) => ..., [])\<close> with the captured, mutated
  \<^verbatim>\<open>position\<close> object passed along. \<^verbatim>\<open>position.column += 1\<close> runs before the token is
  pushed with a copy of \<^verbatim>\<open>position\<close>; \<^verbatim>\<open>position.line\<close> is never assigned, and
  \<^verbatim>\<open>newLineTokenType\<close> is not read. A throw ends the whole reduction.
\<close>

fun tokenizeReduce ::
  "Tokenizer \<Rightarrow> TokenPosition \<Rightarrow> Token list \<Rightarrow> char list \<Rightarrow> JsError + Token list" where
  "tokenizeReduce tk pos toks [] = Inr toks"
| "tokenizeReduce tk pos toks (char # rest) =
     (let pos' = pos\<lparr>column := column pos + 1\<rparr> in
      case forMatchers (tokenTypeMatchers tk) char of
        Inl e \<Rightarrow> Inl e
      | Inr None \<Rightarrow> tokenizeReduce tk pos' toks rest
      | Inr (Some type) \<Rightarrow>
          tokenizeReduce tk pos'
            (toks @ [\<lparr>value_tok = [char], type_tok = type, position_tok = pos'\<rparr>]) rest)"

definition tokenize :: "Tokenizer \<Rightarrow> string \<Rightarrow> JsError + Token list" where
  "tokenize tk input = tokenizeReduce tk \<lparr>line = 1, column = 1\<rparr> [] input"

text \<open>The tokenizer of the first scenario: letters, then digits.\<close>

definition letterDigitTokenizer :: Tokenizer where
  "letterDigitTokenizer =
     withTokenType (RegExpMatcher DigitRegex) ''digit''
       (withTokenType (RegExpMatcher LetterRegex) ''letter'' new_Tokenizer)"

text \<open>A tokenizer with one rule, the newline character, registered as the newline type.\<close>

definition newLineTokenizer :: Tokenizer where
  "newLineTokenizer =
     withTokenType (StringMatcher [CHR 0x0A]) ''newline''
       \<lparr>tokenTypeMatchers = [], newLineTokenType = Some ''newline''\<rparr>"

section \<open>tokenizer/TokenStream.ts\<close>

text \<open>
  The class holds the token array, the index \<^verbatim>\<open>position\<close> and the array
  \<^verbatim>\<open>positionStack\<close>; \<^verbatim>\<open>push\<close> appends at the end and \<^verbatim>\<open>pop\<close> removes the last element.
  The index starts at 0 and is only incremented or reset to a stored index, so it is a
  \<open>nat\<close>. Every method takes the stream and returns the stream as the call leaves it.
\<close>

record TokenStream =
  tokens :: "Token list"
  position :: nat
  positionStack :: "nat list"

definition new_TokenStream :: "Token list \<Rightarrow> TokenStream" where
  "new_TokenStream toks = \<lparr>tokens = toks, position = 0, positionStack = []\<rparr>"

text \<open>
  A JavaScript array read \<^verbatim>\<open>xs[i]\<close>: \<^verbatim>\<open>undefined\<close> outside the array, also at the index
  \<^verbatim>\<open>-1\<close>.
\<close>

definition arrayAt :: "'a list \<Rightarrow> int \<Rightarrow> 'a option" where
  "arrayAt xs i = (if 0 \<le> i \<and> i < int (length xs) then Some (xs ! nat i) else None)"

text \<open>\<^verbatim>\<open>return this.tokens[this.position] || null\<close> (a token is an object, hence truthy).\<close>

definition peek :: "TokenStream \<Rightarrow> Token option" where
  "peek s = arrayAt (tokens s) (int (position s))"

text \<open>\<^verbatim>\<open>return this.tokens[this.position++] || null\<close>: the increment is unconditional.\<close>

definition consume :: "TokenStream \<Rightarrow> Token option \<times> TokenStream" where
  "consume s = (arrayAt (tokens s) (int (position s)), s\<lparr>position := position s + 1\<rparr>)"

definition consumeIf :: "TokenType list \<Rightarrow> TokenStream \<Rightarrow> Token option \<times> TokenStream" where
  "consumeIf types s =
     (case peek s of
        Some token \<Rightarrow> if type_tok token \<in> set types then consume s else (None, s)
      | None \<Rightarrow> (None, s))"

definition storePosition :: "TokenStream \<Rightarrow> TokenStream" where
  "storePosition s = s\<lparr>positionStack := positionStack s @ [position s]\<rparr>"

definition clearPosition :: "TokenStream \<Rightarrow> TokenStream" where
  "clearPosition s = s\<lparr>positionStack := butlast (positionStack s)\<rparr>"

text \<open>\<^verbatim>\<open>pop()\<close> of an empty array is \<^verbatim>\<open>undefined\<close>, and then the index is kept.\<close>

definition restorePosition :: "TokenStream \<Rightarrow> TokenStream" where
  "restorePosition s =
     (if positionStack s = [] then s
      else s\<lparr>position := last (positionStack s),
             positionStack := butlast (positionStack s)\<rparr>)"

text \<open>
  \<^verbatim>\<open>
  const tokenToUse = this.peek() || this.tokens[this.tokens.length - 1];
  return { position: this.position, ...tokenToUse.position };
  \<close>
  On an empty token array \<^verbatim>\<open>tokenToUse\<close> is \<^verbatim>\<open>undefined\<close> and reading its \<^verbatim>\<open>position\<close>
  throws a \<^verbatim>\<open>TypeError\<close>.
\<close>

definition getPositionForError :: "TokenStream \<Rightarrow> JsError + ParserErrorPosition" where
  "getPositionForError s =
     (let tokenToUse =
            (case peek s of
               Some t \<Rightarrow> Some t
             | None \<Rightarrow> arrayAt (tokens s) (int (length (tokens s)) - 1))
      in case tokenToUse of
           None \<Rightarrow> Inl (TypeError ''position'')
         | Some t \<Rightarrow>
             Inr \<lparr>line = line (position_tok t), column = column (position_tok t),
                  position_err = position s\<rparr>)"

text \<open>
  The cursor operations as data, to speak about sequences of calls on one stream
  (the value a call returns is dropped, the stream it leaves is kept).
\<close>

datatype StreamOp =
  Peek | Consume | ConsumeIf "TokenType list"
  | StorePosition | ClearPosition | RestorePosition

fun applyOp :: "StreamOp \<Rightarrow> TokenStream \<Rightarrow> TokenStream" where
  "applyOp Peek s = s"
| "applyOp Consume s = snd (consume s)"
| "applyOp (ConsumeIf types) s = snd (consumeIf types s)"
| "applyOp StorePosition s = storePosition s"
| "applyOp ClearPosition s = clearPosition s"
| "applyOp RestorePosition s = restorePosition s"

fun applyOps :: "StreamOp list \<Rightarrow> TokenStream \<Rightarrow> TokenStream" where
  "applyOps [] s = s"
| "applyOps (operation # ops) s = applyOps ops (applyOp operation s)"

text \<open>
  \<open>consumesBeforeEnd ops s\<close>: running \<open>ops\<close> from \<open>s\<close>, every \<^verbatim>\<open>consume()\<close> is called
  while the cursor is before the end of the tokens.
\<close>

fun consumesBeforeEnd :: "StreamOp list \<Rightarrow> TokenStream \<Rightarrow> bool" where
  "consumesBeforeEnd [] s = True"
| "consumesBeforeEnd (operation # ops) s =
     ((if operation = Consume then position s < length (tokens s) else True)
      \<and> consumesBeforeEnd ops (applyOp operation s))"

section \<open>parsers/types.ts\<close>

text \<open>
  A parser result is an object \<^verbatim>\<open>{ result }\<close> or an object \<^verbatim>\<open>{ errorMessage, position }\<close>.
  The field \<^verbatim>\<open>result\<close> may hold \<^verbatim>\<open>undefined\<close> (\<open>None\<close>). The third value is
  \<^verbatim>\<open>null\<close>, which \<^verbatim>\<open>or\<close> returns under the cast \<^verbatim>\<open>as FailedParserResult\<close>.
\<close>

datatype 'a ParserResult =
  SuccessfulParserResult "'a option"
  | FailedParserResult string ParserErrorPosition
  | NullResult

text \<open>
  A call either returns a value, throws, or does not return (\<open>None\<close>).
  A parser is a function of the stream; the stream it mutates is returned with the result.
\<close>

type_synonym 'a Outcome = "(JsError + 'a) option"

type_synonym 'a ParseFn = "TokenStream \<Rightarrow> ('a ParserResult \<times> TokenStream) Outcome"

abbreviation returns :: "'a \<Rightarrow> 'a Outcome" where
  "returns x \<equiv> Some (Inr x)"

abbreviation throws :: "JsError \<Rightarrow> 'a Outcome" where
  "throws e \<equiv> Some (Inl e)"

text \<open>Sequencing: a throw or a call that does not return ends what follows.\<close>

abbreviation andThen :: "'a Outcome \<Rightarrow> ('a \<Rightarrow> 'b Outcome) \<Rightarrow> 'b Outcome" where
  "andThen m f \<equiv> Option.bind m (\<lambda>x. case x of Inl e \<Rightarrow> Some (Inl e) | Inr v \<Rightarrow> f v)"

text \<open>
  The type guards. \<^verbatim>\<open>isSuccessfulResult(r)\<close> is \<^verbatim>\<open>r.result !== undefined\<close>: the model
  returns the field itself, \<open>Some v\<close> when the guard holds (with the value the guard gives
  access to) and \<open>None\<close> when it does not. \<^verbatim>\<open>isFailedResult(r)\<close> is
  \<^verbatim>\<open>r.errorMessage !== undefined\<close>, likewise. On \<^verbatim>\<open>null\<close> the property read throws.
\<close>

fun isSuccessfulResult :: "'a ParserResult \<Rightarrow> JsError + 'a option" where
  "isSuccessfulResult (SuccessfulParserResult v) = Inr v"
| "isSuccessfulResult (FailedParserResult errorMessage pos) = Inr None"
| "isSuccessfulResult NullResult = Inl (TypeError ''result'')"

fun isFailedResult :: "'a ParserResult \<Rightarrow> JsError + (string \<times> ParserErrorPosition) option" where
  "isFailedResult (SuccessfulParserResult v) = Inr None"
| "isFailedResult (FailedParserResult errorMessage pos) = Inr (Some (errorMessage, pos))"
| "isFailedResult NullResult = Inl (TypeError ''errorMessage'')"

text \<open>
  A result that is not successful, returned at another result type (the same object in
  JavaScript). It is applied only where \<open>isSuccessfulResult\<close> gave \<open>None\<close>.
\<close>

fun asOtherResult :: "'a ParserResult \<Rightarrow> 'b ParserResult" where
  "asOtherResult (FailedParserResult errorMessage pos) = FailedParserResult errorMessage pos"
| "asOtherResult (SuccessfulParserResult v) = SuccessfulParserResult None"
| "asOtherResult NullResult = NullResult"

section \<open>parsers/parsers.ts\<close>

text \<open>\<^verbatim>\<open>types.join(', ')\<close> and \<^verbatim>\<open>token?.type || 'end of input'\<close> (an empty type is falsy).\<close>

fun joinWith :: "string \<Rightarrow> string list \<Rightarrow> string" where
  "joinWith sep [] = []"
| "joinWith sep [x] = x"
| "joinWith sep (x # y # xs) = x @ sep @ joinWith sep (y # xs)"

definition typeOrEndOfInput :: "Token option \<Rightarrow> string" where
  "typeOrEndOfInput token =
     (case token of
        None \<Rightarrow> ''end of input''
      | Some t \<Rightarrow> if type_tok t = [] then ''end of input'' else type_tok t)"

text \<open>
  \<^verbatim>\<open>
  const token = tokenStream.consume();
  if (!token || !types.includes(token.type)) {
    return { errorMessage: `Expected token of type ..., but got ...`,
             position: tokenStream.getPositionForError() };
  }
  return { result: token }
  \<close>
\<close>

definition anyOf :: "TokenType list \<Rightarrow> Token ParseFn" where
  "anyOf types tokenStream =
     (case consume tokenStream of
        (token, s1) \<Rightarrow>
          if (case token of None \<Rightarrow> True | Some t \<Rightarrow> type_tok t \<notin> set types)
          then andThen (Some (getPositionForError s1))
                 (\<lambda>pos. returns
                    (FailedParserResult
                       (''Expected token of type '' @ joinWith '', '' types
                          @ '', but got '' @ typeOrEndOfInput token) pos, s1))
          else returns (SuccessfulParserResult token, s1))"

text \<open>
  \<^verbatim>\<open>
  const token = tokenStream.consume();
  if (token && token.type !== 'end_of_input') { return { errorMessage: .., position: .. }; }
  return { result: null };
  \<close>
  The result type is \<^verbatim>\<open>null\<close>, the type with one value.
\<close>

definition endOfInput :: "unit ParseFn" where
  "endOfInput tokenStream =
     (case consume tokenStream of
        (token, s1) \<Rightarrow>
          (case token of
             Some t \<Rightarrow>
               if type_tok t \<noteq> ''end_of_input''
               then andThen (Some (getPositionForError s1))
                      (\<lambda>pos. returns
                         (FailedParserResult
                            (''Expected end of input, but got token of type '' @ type_tok t)
                            pos, s1))
               else returns (SuccessfulParserResult (Some ()), s1)
           | None \<Rightarrow> returns (SuccessfulParserResult (Some ()), s1)))"

section \<open>parsers/combinators.ts\<close>

text \<open>
  \<^verbatim>\<open>
  tokenStream.storePosition();
  const result = parser(tokenStream);
  if (isSuccessfulResult(result)) { tokenStream.clearPosition(); }
  else { tokenStream.restorePosition(); }
  return result;
  \<close>
\<close>

definition attempt :: "'a ParseFn \<Rightarrow> 'a ParseFn" where
  "attempt parser tokenStream =
     andThen (parser (storePosition tokenStream))
       (\<lambda>(result, s1).
          andThen (Some (isSuccessfulResult result))
            (\<lambda>ok. case ok of
                     Some v \<Rightarrow> returns (result, clearPosition s1)
                   | None \<Rightarrow> returns (result, restorePosition s1)))"

text \<open>
  \<^verbatim>\<open>optional(parser, shouldBacktrack = true)\<close>: the successful result is returned as it
  is (at the type \<^verbatim>\<open>T | null\<close>), anything else becomes \<^verbatim>\<open>{ result: null }\<close>.
\<close>

definition optional :: "'a ParseFn \<Rightarrow> bool \<Rightarrow> 'a option ParseFn" where
  "optional parser shouldBacktrack tokenStream =
     andThen ((if shouldBacktrack then attempt parser else parser) tokenStream)
       (\<lambda>(result, s1).
          andThen (Some (isSuccessfulResult result))
            (\<lambda>ok. case ok of
                     Some v \<Rightarrow> returns (SuccessfulParserResult (Some (Some v)), s1)
                   | None \<Rightarrow> returns (SuccessfulParserResult (Some None), s1)))"

text \<open>
  The loop of \<^verbatim>\<open>or\<close> over the alternatives, with the variables \<^verbatim>\<open>deepestError\<close>
  (initially \<^verbatim>\<open>null\<close>) and \<^verbatim>\<open>deepestErrorPosition\<close> (initially \<^verbatim>\<open>-1\<close>):
  \<^verbatim>\<open>
  for (const parser of parsers) {
    const result = attempt(parser)(tokenStream);
    if (isSuccessfulResult(result)) { return result; }
    if (isFailedResult(result)) {
      if (result.position.position > deepestErrorPosition) {
        deepestError = result; deepestErrorPosition = result.position.position;
      }
    }
  }
  return deepestError as FailedParserResult;
  \<close>
\<close>

fun orLoop :: "'a ParseFn list \<Rightarrow> 'a ParserResult \<Rightarrow> int \<Rightarrow> 'a ParseFn" where
  "orLoop [] deepestError deepestErrorPosition tokenStream =
     returns (deepestError, tokenStream)"
| "orLoop (parser # parsers) deepestError deepestErrorPosition tokenStream =
     andThen (attempt parser tokenStream)
       (\<lambda>(result, s1).
          andThen (Some (isSuccessfulResult result))
            (\<lambda>ok. case ok of
                     Some v \<Rightarrow> returns (result, s1)
                   | None \<Rightarrow>
                       andThen (Some (isFailedResult result))
                         (\<lambda>failed. case failed of
                            Some (errorMessage, pos) \<Rightarrow>
                              if int (position_err pos) > deepestErrorPosition
                              then orLoop parsers result (int (position_err pos)) s1
                              else orLoop parsers deepestError deepestErrorPosition s1
                          | None \<Rightarrow> orLoop parsers deepestError deepestErrorPosition s1)))"

definition or_parsers :: "'a ParseFn list \<Rightarrow> 'a ParseFn" where
  "or_parsers parsers tokenStream = orLoop parsers NullResult (-1) tokenStream"

text \<open>
  \<^verbatim>\<open>results.push(x)\<close>. The length of a JavaScript array is below \<open>2^32\<close>: a \<^verbatim>\<open>push\<close> onto
  an array of \<open>2^32 - 1\<close> elements throws \<^verbatim>\<open>RangeError: Invalid array length\<close>.
\<close>

definition maxArrayLength :: nat where
  "maxArrayLength = 4294967295"

definition arrayPush :: "'a list \<Rightarrow> 'a \<Rightarrow> JsError + 'a list" where
  "arrayPush xs x =
     (if length xs < maxArrayLength then Inr (xs @ [x])
      else Inl (RangeError ''Invalid array length''))"

text \<open>
  The \<^verbatim>\<open>while (true)\<close> loop of \<^verbatim>\<open>many\<close>. It has no loop condition, so it is a partial
  function: \<open>None\<close> is a loop that does not end. The loop variable \<^verbatim>\<open>results\<close> is passed along;
  \<^verbatim>\<open>parseFailure\<close> is \<^verbatim>\<open>null\<close> while the loop runs and is assigned only before a \<^verbatim>\<open>break\<close>,
  so it is part of what the loop leaves: \<open>(results, parseFailure, tokenStream)\<close>.
  \<^verbatim>\<open>
  while (true) {
    const positionBefore = tokenStream.position;
    tokenStream.storePosition();
    const result = parser(tokenStream);
    if (isSuccessfulResult(result)) {
      const positionAfter = tokenStream.position;
      if (positionAfter === positionBefore) { tokenStream.restorePosition(); break; }
      results.push(result.result);
      tokenStream.clearPosition();
    } else {
      parseFailure = result;
      tokenStream.restorePosition();
      break;
    }
  }
  \<close>
\<close>

partial_function (option) manyLoop ::
  "'a ParseFn \<Rightarrow> 'a list \<Rightarrow> TokenStream
     \<Rightarrow> (JsError + ('a list \<times> 'a ParserResult option \<times> TokenStream)) option" where
  "manyLoop parser results tokenStream =
     (let positionBefore = position tokenStream in
      andThen (parser (storePosition tokenStream))
        (\<lambda>(result, s1).
           andThen (Some (isSuccessfulResult result))
             (\<lambda>ok. case ok of
                      Some v \<Rightarrow>
                        (let positionAfter = position s1 in
                         if positionAfter = positionBefore
                         then returns (results, None, restorePosition s1)
                         else andThen (Some (arrayPush results v))
                                (\<lambda>pushed. manyLoop parser pushed (clearPosition s1)))
                    | None \<Rightarrow> returns (results, Some result, restorePosition s1))))"

text \<open>
  \<^verbatim>\<open>
  if (parseFailure && results.length === 0) { return parseFailure; }
  return { result: results };
  \<close>
\<close>

definition many :: "'a ParseFn \<Rightarrow> 'a list ParseFn" where
  "many parser tokenStream =
     andThen (manyLoop parser [] tokenStream)
       (\<lambda>(results, parseFailure, s1).
          case parseFailure of
            Some failure \<Rightarrow>
              if results = [] then returns (asOtherResult failure, s1)
              else returns (SuccessfulParserResult (Some results), s1)
          | None \<Rightarrow> returns (SuccessfulParserResult (Some results), s1))"

text \<open>
  \<^verbatim>\<open>
  const result = parser(tokenStream);
  if (isSuccessfulResult(result)) { return { result: mapper(result.result) }; }
  return result;
  \<close>
  The value of \<^verbatim>\<open>mapper\<close> may be \<^verbatim>\<open>undefined\<close> (\<open>None\<close>); it is stored in the field
  \<^verbatim>\<open>result\<close> as it is.
\<close>

definition map_parser :: "'a ParseFn \<Rightarrow> ('a \<Rightarrow> 'b option) \<Rightarrow> 'b ParseFn" where
  "map_parser parser mapper tokenStream =
     andThen (parser tokenStream)
       (\<lambda>(result, s1).
          andThen (Some (isSuccessfulResult result))
            (\<lambda>ok. case ok of
                     Some v \<Rightarrow> returns (SuccessfulParserResult (mapper v), s1)
                   | None \<Rightarrow> returns (asOtherResult result, s1)))"

section \<open>parsers/runners.ts\<close>

text \<open>
  \<^verbatim>\<open>
  const test = parser(tokenStream);
  if (isFailedResult(test)) { throw new ParserError(test.errorMessage, test.position); }
  return test;
  \<close>
\<close>

definition runParser :: "'a ParseFn \<Rightarrow> 'a ParseFn" where
  "runParser parser tokenStream =
     andThen (parser tokenStream)
       (\<lambda>(test, s1).
          andThen (Some (isFailedResult test))
            (\<lambda>failed. case failed of
               Some (errorMessage, pos) \<Rightarrow> throws (new_ParserError errorMessage pos)
             | None \<Rightarrow> returns (test, s1)))"

section \<open>Invariants and example inputs\<close>

text \<open>The code equation of the loop, so that \<open>many\<close> can be run on concrete input.\<close>

declare manyLoop.simps [code]

text \<open>
  The bound of the data model, \<open>0 \<le> cursor \<le> len(tokens)\<close>, and the same bound for
  every index saved on the backtrack stack.
\<close>

definition cursorInBounds :: "TokenStream \<Rightarrow> bool" where
  "cursorInBounds s = (0 \<le> position s \<and> position s \<le> length (tokens s))"

definition stackInBounds :: "TokenStream \<Rightarrow> bool" where
  "stackInBounds s = list_all (\<lambda>p. p \<le> length (tokens s)) (positionStack s)"

text \<open>The token that \<open>tokenize\<close> produces for the input \<^verbatim>\<open>"a"\<close> under a letter rule.\<close>

definition letterToken :: Token where
  "letterToken =
     \<lparr>value_tok = ''a'', type_tok = ''letter'', position_tok = \<lparr>line = 1, column = 2\<rparr>\<rparr>"

text \<open>A stream over that single token, and the stream after one token was read.\<close>

definition letterStream :: TokenStream where
  "letterStream = new_TokenStream [letterToken]"

definition letterStreamRead :: TokenStream where
  "letterStreamRead = \<lparr>tokens = [letterToken], position = 1, positionStack = []\<rparr>"

text \<open>\<^verbatim>\<open>map(anyOf('letter'), t => undefined)\<close>: a letter, mapped to \<^verbatim>\<open>undefined\<close>.\<close>

definition letterToUndefined :: "Token ParseFn" where
  "letterToUndefined = map_parser (anyOf [''letter'']) (\<lambda>t. None)"

text \<open>The failure of \<^verbatim>\<open>anyOf(type)\<close> on the letter token.\<close>

definition letterMismatch :: "TokenType \<Rightarrow> 'a ParserResult" where
  "letterMismatch type =
     FailedParserResult (''Expected token of type '' @ type @ '', but got letter'')
       \<lparr>line = 1, column = 2, position_err = 1\<rparr>"

section \<open>Properties of the tokenizer\<close>

lemma letterDigitTokenizer_rules:
  "tokenTypeMatchers letterDigitTokenizer =
     [(RegExpMatcher LetterRegex, ''letter''), (RegExpMatcher DigitRegex, ''digit'')]"
  by (simp add: letterDigitTokenizer_def withTokenType_def new_Tokenizer_def
      LetterRegex_def DigitRegex_def)

text \<open>
  Whatever the rules and the input: only the first rule is consulted, every token is on
  line 1, and no token is at column 1.
\<close>

lemma forMatchers_first_rule_only:
  "forMatchers (entry # entries) char = forMatchers [entry] char"
  by (cases entry) simp

lemma tokenizeReduce_positions:
  "tokenizeReduce tk pos toks input = Inr out \<Longrightarrow> line pos = 1 \<Longrightarrow> 1 \<le> column pos
   \<Longrightarrow> list_all (\<lambda>t. line (position_tok t) = 1 \<and> 2 \<le> column (position_tok t)) toks
   \<Longrightarrow> list_all (\<lambda>t. line (position_tok t) = 1 \<and> 2 \<le> column (position_tok t)) out"
proof (induction input arbitrary: pos toks)
  case Nil
  then show ?case by simp
next
  case (Cons char rest)
  then show ?case
    by (auto simp: Let_def split: sum.splits option.splits)
qed

lemma tokenize_positions:
  "tokenize tk input = Inr out
   \<Longrightarrow> list_all (\<lambda>t. line (position_tok t) = 1 \<and> 2 \<le> column (position_tok t)) out"
  unfolding tokenize_def by (erule tokenizeReduce_positions) simp_all

text \<open>
  Claim C1. With the rules letter \<^verbatim>\<open>/[a-zA-Z]/\<close> then digit \<^verbatim>\<open>/[0-9]/\<close>, the claim expects
  \<^verbatim>\<open>tokenize("ab12")\<close> to return four tokens, the digit rule being tried after the letter
  rule has not matched. The code throws at the character \<^verbatim>\<open>1\<close>: the \<^verbatim>\<open>throw\<close> is the last
  statement of the loop body, so the first rule that does not match ends the tokenization
  and no later rule is evaluated.
\<close>

theorem tokenize_ab12_throws:
  "tokenize letterDigitTokenizer ''ab12''
     = Inl (Error ''No token type matched for character: 1'')"
  by (simp add: tokenize_def letterDigitTokenizer_rules LetterRegex_def)

text \<open>
  Claim C5. The claim expects the first character of a line at column 1 and the line number
  incremented after a character of the newline type. On the input of two newline
  characters, with the newline rule registered as the newline type, the code puts the first
  token at column 2 and the second at line 1, column 3: the column starts at 1 and is
  incremented before the token is pushed, and the line is never changed.
\<close>

theorem tokenize_newlines_positions:
  "tokenize newLineTokenizer [CHR 0x0A, CHR 0x0A]
     = Inr [\<lparr>value_tok = [CHR 0x0A], type_tok = ''newline'',
              position_tok = \<lparr>line = 1, column = 2\<rparr>\<rparr>,
            \<lparr>value_tok = [CHR 0x0A], type_tok = ''newline'',
              position_tok = \<lparr>line = 1, column = 3\<rparr>\<rparr>]"
  by (simp add: tokenize_def newLineTokenizer_def withTokenType_def)

section \<open>Properties of the token stream\<close>

lemma applyOp_bounds:
  "cursorInBounds s \<Longrightarrow> stackInBounds s
   \<Longrightarrow> (operation = Consume \<longrightarrow> position s < length (tokens s))
   \<Longrightarrow> cursorInBounds (applyOp operation s) \<and> stackInBounds (applyOp operation s)"
  by (cases operation)
    (auto simp: cursorInBounds_def stackInBounds_def consume_def consumeIf_def peek_def
      arrayAt_def storePosition_def clearPosition_def restorePosition_def list_all_iff
      split: option.splits dest: in_set_butlastD)

lemma applyOps_bounds:
  "cursorInBounds s \<Longrightarrow> stackInBounds s \<Longrightarrow> consumesBeforeEnd ops s
   \<Longrightarrow> cursorInBounds (applyOps ops s) \<and> stackInBounds (applyOps ops s)"
proof (induction ops arbitrary: s)
  case Nil
  then show ?case by simp
next
  case (Cons operation ops)
  from Cons.prems
  have "cursorInBounds (applyOp operation s) \<and> stackInBounds (applyOp operation s)"
    by (intro applyOp_bounds) (auto split: if_splits)
  with Cons show ?case by (auto split: if_splits)
qed

lemma consumesBeforeEnd_take:
  "consumesBeforeEnd ops s \<Longrightarrow> consumesBeforeEnd (take n ops) s"
  by (induction ops arbitrary: s n) (auto simp: take_Cons split: nat.splits)

lemma new_TokenStream_bounds:
  "cursorInBounds (new_TokenStream toks) \<and> stackInBounds (new_TokenStream toks)"
  by (simp add: cursorInBounds_def stackInBounds_def new_TokenStream_def)

text \<open>
  Claim C4, as stated: \<open>0 \<le> cursor \<le> len(tokens)\<close> after every cursor operation, also
  after \<^verbatim>\<open>consume()\<close> at the end of the input. It fails on the stream over no tokens:
  one \<^verbatim>\<open>consume()\<close> leaves the cursor at 1, above the length 0.
\<close>

theorem consume_at_end_leaves_bounds:
  "\<not> cursorInBounds (applyOps [Consume] (new_TokenStream []))"
  by (simp add: cursorInBounds_def consume_def new_TokenStream_def)

text \<open>
  Claim C4, amended: from a stream whose cursor and saved positions are within the bound
  (a new stream is one), a sequence of cursor operations in which every \<^verbatim>\<open>consume()\<close> is
  called before the end of the tokens keeps \<open>0 \<le> cursor \<le> len(tokens)\<close> after each
  operation (that is, after every prefix of the sequence). A \<^verbatim>\<open>consume()\<close> always moves
  the cursor by one, at the end of the input too.
\<close>

theorem cursor_bounds_preserved:
  assumes "cursorInBounds s" and "stackInBounds s" and "consumesBeforeEnd ops s"
  shows "cursorInBounds (applyOps (take n ops) s)
     \<and> position (applyOp Consume s) = position s + 1"
  using applyOps_bounds [OF assms(1,2) consumesBeforeEnd_take [OF assms(3)]]
  by (simp add: consume_def)

theorem cursor_bounds_preserved_witness:
  "cursorInBounds
     (applyOps (take 3 [StorePosition, Consume, RestorePosition, ConsumeIf [''digit''], Peek])
        (new_TokenStream [letterToken]))
   \<and> position (applyOp Consume (new_TokenStream [letterToken])) = 1"
  using cursor_bounds_preserved
    [of "new_TokenStream [letterToken]"
        "[StorePosition, Consume, RestorePosition, ConsumeIf [''digit''], Peek]" 3]
  by (simp add: new_TokenStream_bounds)
    (simp add: new_TokenStream_def storePosition_def consume_def restorePosition_def
      consumeIf_def peek_def arrayAt_def letterToken_def)

section \<open>Properties of the primitive parsers\<close>

text \<open>
  Claim C2, as stated: on a token of another type \<^verbatim>\<open>anyOf\<close> fails and leaves the cursor
  where it was. It fails on the letter token with \<^verbatim>\<open>anyOf('digit')\<close>: the failure is
  returned and the cursor is at 1, since \<^verbatim>\<open>consume()\<close> has read the token.
\<close>

theorem anyOf_mismatch_advances:
  "anyOf [''digit''] letterStream = returns (letterMismatch ''digit'', letterStreamRead)"
  by (simp add: anyOf_def consume_def arrayAt_def getPositionForError_def peek_def Let_def
      new_TokenStream_def letterToken_def typeOrEndOfInput_def letterStream_def
      letterStreamRead_def letterMismatch_def)

text \<open>
  Claim C2, amended: with the cursor on a token, \<^verbatim>\<open>anyOf(types)\<close> returns the success
  with that token and advances the cursor by exactly one when the type of the token is
  among \<open>types\<close>; when it is not, it returns a failure and the cursor has advanced by
  exactly one as well. In both cases nothing else of the stream changes.
\<close>

theorem anyOf_cursor:
  assumes "position s < length (tokens s)"
  shows "(type_tok (tokens s ! position s) \<in> set types \<longrightarrow>
            anyOf types s = returns (SuccessfulParserResult (Some (tokens s ! position s)),
                                     s\<lparr>position := position s + 1\<rparr>))
       \<and> (type_tok (tokens s ! position s) \<notin> set types \<longrightarrow>
            (\<exists>errorMessage pos.
               anyOf types s = returns (FailedParserResult errorMessage pos,
                                        s\<lparr>position := position s + 1\<rparr>)))"
  using assms
  by (auto simp: anyOf_def consume_def arrayAt_def getPositionForError_def peek_def Let_def)

theorem anyOf_cursor_witness:
  "anyOf [''letter''] letterStream
     = returns (SuccessfulParserResult (Some letterToken), letterStreamRead)
   \<and> (\<exists>errorMessage pos.
         anyOf [''other''] letterStream
           = returns (FailedParserResult errorMessage pos, letterStreamRead))"
  using anyOf_cursor [of letterStream "[''letter'']"]
    anyOf_cursor [of letterStream "[''other'']"]
  by (simp add: letterStream_def letterStreamRead_def new_TokenStream_def letterToken_def)

lemma anyOf_total: "anyOf types t \<noteq> None"
  by (simp add: anyOf_def consume_def getPositionForError_def Let_def split: option.splits)

lemma endOfInput_total: "endOfInput t \<noteq> None"
  by (simp add: endOfInput_def consume_def getPositionForError_def Let_def
      split: option.splits)

lemma endOfInput_at_end:
  "length (tokens s) \<le> position s
   \<Longrightarrow> endOfInput s
       = returns (SuccessfulParserResult (Some ()), s\<lparr>position := position s + 1\<rparr>)"
  by (simp add: endOfInput_def consume_def arrayAt_def)

section \<open>Properties of the combinators\<close>

subsection \<open>Backtracking and single steps of the loop of \<open>many\<close>\<close>

text \<open>
  A failing parser that leaves the tokens and the stack as it found them is rewound by
  \<open>attempt\<close> to the stream it started from.
\<close>

lemma attempt_restores:
  "parser (storePosition s) = returns (FailedParserResult m e, s1)
   \<Longrightarrow> tokens s1 = tokens s \<Longrightarrow> positionStack s1 = positionStack s @ [position s]
   \<Longrightarrow> attempt parser s = returns (FailedParserResult m e, s)"
  by (simp add: attempt_def restorePosition_def)

lemma attempt_anyOf_letterStream:
  "attempt (anyOf [''letter'']) letterStream
     = returns (SuccessfulParserResult (Some letterToken), letterStreamRead)"
  by (simp add: attempt_def anyOf_def consume_def arrayAt_def storePosition_def
      clearPosition_def letterStream_def letterStreamRead_def new_TokenStream_def
      letterToken_def)

lemma attempt_anyOf_mismatch:
  "type \<noteq> ''letter''
   \<Longrightarrow> attempt (anyOf [type]) letterStream = returns (letterMismatch type, letterStream)"
  by (simp add: attempt_def anyOf_def consume_def arrayAt_def storePosition_def
      restorePosition_def getPositionForError_def peek_def Let_def typeOrEndOfInput_def
      letterStream_def new_TokenStream_def letterToken_def letterMismatch_def)

lemma optional_anyOf_letterStream:
  "optional (anyOf [''digit'']) True (storePosition letterStream)
     = returns (SuccessfulParserResult (Some None), storePosition letterStream)"
  by (simp add: optional_def attempt_def anyOf_def consume_def arrayAt_def storePosition_def
      restorePosition_def getPositionForError_def peek_def Let_def typeOrEndOfInput_def
      letterStream_def new_TokenStream_def letterToken_def)

lemma restore_stored: "restorePosition (storePosition s) = s"
  by (simp add: restorePosition_def storePosition_def)

lemma position_stored: "position (storePosition s) = position s"
  by (simp add: storePosition_def)

lemma manyLoop_first_failure:
  "parser (storePosition s) = returns (FailedParserResult m e, s1)
   \<Longrightarrow> manyLoop parser [] s = returns ([], Some (FailedParserResult m e), restorePosition s1)"
  by (subst manyLoop.simps) simp

lemma manyLoop_no_progress:
  "parser (storePosition s) = returns (SuccessfulParserResult (Some v), s1)
   \<Longrightarrow> position s1 = position s
   \<Longrightarrow> manyLoop parser results s = returns (results, None, restorePosition s1)"
  by (subst manyLoop.simps) simp

subsection \<open>\<open>many\<close> with no accumulated result\<close>

text \<open>
  Claim C3, as stated: whenever \<^verbatim>\<open>many(p)\<close> accumulates no result it returns the last
  failure, also when the first application of \<open>p\<close> succeeds without consuming. It fails
  for \<^verbatim>\<open>many(optional(anyOf('digit')))\<close> on the letter token: \<^verbatim>\<open>optional\<close> succeeds with
  \<^verbatim>\<open>null\<close> and the cursor has not moved, the loop stops with \<^verbatim>\<open>parseFailure\<close> still
  \<^verbatim>\<open>null\<close>, and the result is the success with the empty list.
\<close>

theorem many_zero_width_empty_success:
  "many (optional (anyOf [''digit'']) True) letterStream
     = returns (SuccessfulParserResult (Some []), letterStream)"
  using manyLoop_no_progress
    [where parser = "optional (anyOf [''digit'']) True" and s = letterStream
      and results = "[]", OF optional_anyOf_letterStream]
  by (simp add: many_def restore_stored position_stored)

text \<open>
  Claim C3, amended: if the first application of \<open>p\<close> returns a failure, \<^verbatim>\<open>many(p)\<close>
  returns that failure, never an empty-list success, after restoring the saved position;
  if the first application of \<open>p\<close> succeeds without moving the cursor, no failure has
  been seen and \<^verbatim>\<open>many(p)\<close> returns the success with the empty list, after restoring the
  saved position.
\<close>

theorem many_zero_results:
  "(parser (storePosition s) = returns (FailedParserResult m e, s1)
      \<longrightarrow> many parser s = returns (FailedParserResult m e, restorePosition s1))
   \<and> (parser (storePosition s) = returns (SuccessfulParserResult (Some v), s1)
        \<and> position s1 = position s
      \<longrightarrow> many parser s = returns (SuccessfulParserResult (Some []), restorePosition s1))"
  by (simp add: many_def manyLoop_first_failure manyLoop_no_progress)

lemma anyOf_digit_stored_letterStream:
  "anyOf [''digit''] (storePosition letterStream)
     = returns (letterMismatch ''digit'',
         \<lparr>tokens = [letterToken], position = 1, positionStack = [0]\<rparr>)"
  by (simp add: anyOf_def consume_def arrayAt_def storePosition_def
      getPositionForError_def peek_def Let_def typeOrEndOfInput_def
      letterStream_def new_TokenStream_def letterToken_def letterMismatch_def)

theorem many_zero_results_witness:
  "many (anyOf [''digit'']) letterStream = returns (letterMismatch ''digit'', letterStream)
   \<and> many (optional (anyOf [''other'']) True) letterStream
       = returns (SuccessfulParserResult (Some []), letterStream)"
proof -
  have other: "optional (anyOf [''other'']) True (storePosition letterStream)
     = returns (SuccessfulParserResult (Some None), storePosition letterStream)"
    by (simp add: optional_def attempt_def anyOf_def consume_def arrayAt_def storePosition_def
      restorePosition_def getPositionForError_def peek_def Let_def typeOrEndOfInput_def
      letterStream_def new_TokenStream_def letterToken_def)
  have restored: "restorePosition \<lparr>tokens = [letterToken], position = 1, positionStack = [0]\<rparr>
      = letterStream"
    by (simp add: restorePosition_def letterStream_def new_TokenStream_def)
  from many_zero_results
    [of "anyOf [''digit'']" letterStream "''Expected token of type digit, but got letter''"
       "\<lparr>line = 1, column = 2, position_err = 1\<rparr>"
       "\<lparr>tokens = [letterToken], position = 1, positionStack = [0]\<rparr>"]
    many_zero_results
    [where parser = "optional (anyOf [''other'']) True" and s = letterStream and v = None
       and ?s1.0 = "storePosition letterStream"]
    anyOf_digit_stored_letterStream other restored
  show ?thesis
    by (simp add: letterMismatch_def restore_stored position_stored)
qed

text \<open>
  Claim C8. The claim expects \<^verbatim>\<open>many(anyOf('digit'))\<close> on an empty token sequence to
  return a failure value and not to throw. The code throws a \<^verbatim>\<open>TypeError\<close>: \<^verbatim>\<open>anyOf\<close>
  builds its failure with \<^verbatim>\<open>getPositionForError()\<close>, whose fallback
  \<^verbatim>\<open>this.tokens[this.tokens.length - 1]\<close> is \<^verbatim>\<open>undefined\<close> on an empty array, and reading
  \<^verbatim>\<open>.position\<close> of it throws.
\<close>

theorem many_anyOf_empty_throws:
  "many (anyOf [''digit'']) (new_TokenStream []) = throws (TypeError ''position'')"
  apply (simp add: many_def)
  apply (subst manyLoop.simps)
  apply (simp add: anyOf_def consume_def arrayAt_def getPositionForError_def peek_def Let_def
      new_TokenStream_def storePosition_def)
  done

subsection \<open>Termination of \<open>many\<close>\<close>





text \<open>
  The progress check does not stop \<^verbatim>\<open>many(endOfInput())\<close> at the end of the input: every
  \<^verbatim>\<open>endOfInput()\<close> succeeds there and its \<^verbatim>\<open>consume()\<close> moves the cursor one further. The
  loop ends when \<^verbatim>\<open>results\<close> cannot grow any more, with the \<^verbatim>\<open>RangeError\<close> of the \<^verbatim>\<open>push\<close>.
\<close>

lemma manyLoop_endOfInput_at_end:
  "length (tokens s) \<le> position s
   \<Longrightarrow> manyLoop endOfInput results s = throws (RangeError ''Invalid array length'')"
proof (induction "maxArrayLength - length results" arbitrary: results s rule: less_induct)
  case less
  from less.prems
  have atEnd: "length (tokens (storePosition s)) \<le> position (storePosition s)"
    by (simp add: storePosition_def)
  note step = endOfInput_at_end [OF atEnd]
  show ?case
  proof (cases "length results < maxArrayLength")
    case True
    let ?next = "clearPosition ((storePosition s)\<lparr>position := position (storePosition s) + 1\<rparr>)"
    from True have smaller:
      "maxArrayLength - length (results @ [()]) < maxArrayLength - length results"
      by simp
    from less.prems have "length (tokens ?next) \<le> position ?next"
      by (simp add: clearPosition_def storePosition_def)
    from less.hyps [OF smaller this]
    have "manyLoop endOfInput (results @ [()]) ?next
        = throws (RangeError ''Invalid array length'')" .
    with True step show ?thesis
      by (subst manyLoop.simps) (simp add: arrayPush_def position_stored)
  next
    case False
    with step show ?thesis
      by (subst manyLoop.simps) (simp add: arrayPush_def position_stored)
  qed
qed

lemma many_endOfInput_at_end_throws:
  "many endOfInput (new_TokenStream []) = throws (RangeError ''Invalid array length'')"
  by (simp add: many_def manyLoop_endOfInput_at_end new_TokenStream_def)

subsection \<open>Ordered alternation\<close>

lemma orLoop_first_success:
  "k < length parsers
   \<Longrightarrow> (\<forall>i<k. attempt (parsers ! i) s = returns (FailedParserResult (msg i) (pos i), s))
   \<Longrightarrow> attempt (parsers ! k) s = returns (SuccessfulParserResult (Some v), s')
   \<Longrightarrow> orLoop parsers deepestError deepestErrorPosition s
        = returns (SuccessfulParserResult (Some v), s')"
proof (induction parsers arbitrary: k msg pos deepestError deepestErrorPosition)
  case Nil
  then show ?case by simp
next
  case (Cons parser parsers)
  show ?case
  proof (cases k)
    case 0
    with Cons.prems show ?thesis by simp
  next
    case (Suc j)
    with Cons.prems have first: "attempt parser s = returns (FailedParserResult (msg 0) (pos 0), s)"
      by auto
    from Suc Cons.prems have rest:
      "j < length parsers"
      "\<forall>i<j. attempt (parsers ! i) s = returns (FailedParserResult ((msg \<circ> Suc) i) ((pos \<circ> Suc) i), s)"
      "attempt (parsers ! j) s = returns (SuccessfulParserResult (Some v), s')"
      by auto
    from Cons.IH [OF rest] first show ?thesis by simp
  qed
qed


lemma orLoop_all_fail:
  "(\<forall>i<length parsers. attempt (parsers ! i) s = returns (FailedParserResult (msg i) (pos i), s))
   \<Longrightarrow> (orLoop parsers deepestError deepestErrorPosition s = returns (deepestError, s)
         \<and> (\<forall>i<length parsers. int (position_err (pos i)) \<le> deepestErrorPosition))
     \<or> (\<exists>k<length parsers.
          orLoop parsers deepestError deepestErrorPosition s
            = returns (FailedParserResult (msg k) (pos k), s)
          \<and> deepestErrorPosition < int (position_err (pos k))
          \<and> (\<forall>i<length parsers. position_err (pos i) \<le> position_err (pos k))
          \<and> (\<forall>i<k. position_err (pos i) < position_err (pos k)))"
proof (induction parsers arbitrary: msg pos deepestError deepestErrorPosition)
  case Nil
  then show ?case by simp
next
  case (Cons parser parsers)
  from Cons.prems have first: "attempt parser s = returns (FailedParserResult (msg 0) (pos 0), s)"
    by auto
  from Cons.prems have rest:
    "\<forall>i<length parsers. attempt (parsers ! i) s
        = returns (FailedParserResult ((msg \<circ> Suc) i) ((pos \<circ> Suc) i), s)"
    by auto
  let ?p0 = "int (position_err (pos 0))"
  show ?case
  proof (cases "?p0 > deepestErrorPosition")
    case True
    then have step: "orLoop (parser # parsers) deepestError deepestErrorPosition s
        = orLoop parsers (FailedParserResult (msg 0) (pos 0)) ?p0 s"
      using first by simp
    from Cons.IH [OF rest, of "FailedParserResult (msg 0) (pos 0)" ?p0]
    show ?thesis
    proof (elim disjE conjE exE)
      assume a: "orLoop parsers (FailedParserResult (msg 0) (pos 0)) ?p0 s
          = returns (FailedParserResult (msg 0) (pos 0), s)"
        and b: "\<forall>i<length parsers. int (position_err ((pos \<circ> Suc) i)) \<le> ?p0"
      have "\<forall>i<length (parser # parsers). position_err (pos i) \<le> position_err (pos 0)"
      proof (intro allI impI)
        fix i assume "i < length (parser # parsers)"
        with b show "position_err (pos i) \<le> position_err (pos 0)"
          by (cases i) auto
      qed
      with a step True show ?thesis
        by (intro disjI2 exI [of _ 0]) simp
    next
      fix k
      assume k: "k < length parsers"
        and a: "orLoop parsers (FailedParserResult (msg 0) (pos 0)) ?p0 s
          = returns (FailedParserResult ((msg \<circ> Suc) k) ((pos \<circ> Suc) k), s)"
        and b: "?p0 < int (position_err ((pos \<circ> Suc) k))"
        and c: "\<forall>i<length parsers. position_err ((pos \<circ> Suc) i) \<le> position_err ((pos \<circ> Suc) k)"
        and d: "\<forall>i<k. position_err ((pos \<circ> Suc) i) < position_err ((pos \<circ> Suc) k)"
      have c': "\<forall>i<length (parser # parsers). position_err (pos i) \<le> position_err (pos (Suc k))"
      proof (intro allI impI)
        fix i assume "i < length (parser # parsers)"
        with b c show "position_err (pos i) \<le> position_err (pos (Suc k))"
          by (cases i) auto
      qed
      have d': "\<forall>i<Suc k. position_err (pos i) < position_err (pos (Suc k))"
      proof (intro allI impI)
        fix i assume "i < Suc k"
        with b d show "position_err (pos i) < position_err (pos (Suc k))"
          by (cases i) auto
      qed
      from b True have e: "deepestErrorPosition < int (position_err (pos (Suc k)))"
        by simp
      from k a c' d' e step show ?thesis
        by (intro disjI2 exI [of _ "Suc k"]) simp
    qed
  next
    case False
    then have step: "orLoop (parser # parsers) deepestError deepestErrorPosition s
        = orLoop parsers deepestError deepestErrorPosition s"
      using first by simp
    from Cons.IH [OF rest, of deepestError deepestErrorPosition]
    show ?thesis
    proof (elim disjE conjE exE)
      assume a: "orLoop parsers deepestError deepestErrorPosition s = returns (deepestError, s)"
        and b: "\<forall>i<length parsers. int (position_err ((pos \<circ> Suc) i)) \<le> deepestErrorPosition"
      have "\<forall>i<length (parser # parsers). int (position_err (pos i)) \<le> deepestErrorPosition"
      proof (intro allI impI)
        fix i assume "i < length (parser # parsers)"
        with b False show "int (position_err (pos i)) \<le> deepestErrorPosition"
          by (cases i) auto
      qed
      with a step show ?thesis by simp
    next
      fix k
      assume k: "k < length parsers"
        and a: "orLoop parsers deepestError deepestErrorPosition s
          = returns (FailedParserResult ((msg \<circ> Suc) k) ((pos \<circ> Suc) k), s)"
        and b: "deepestErrorPosition < int (position_err ((pos \<circ> Suc) k))"
        and c: "\<forall>i<length parsers. position_err ((pos \<circ> Suc) i) \<le> position_err ((pos \<circ> Suc) k)"
        and d: "\<forall>i<k. position_err ((pos \<circ> Suc) i) < position_err ((pos \<circ> Suc) k)"
      have c': "\<forall>i<length (parser # parsers). position_err (pos i) \<le> position_err (pos (Suc k))"
      proof (intro allI impI)
        fix i assume "i < length (parser # parsers)"
        with b c False show "position_err (pos i) \<le> position_err (pos (Suc k))"
          by (cases i) auto
      qed
      have d': "\<forall>i<Suc k. position_err (pos i) < position_err (pos (Suc k))"
      proof (intro allI impI)
        fix i assume "i < Suc k"
        with b d False show "position_err (pos i) < position_err (pos (Suc k))"
          by (cases i) auto
      qed
      from k a b c' d' step show ?thesis
        by (intro disjI2 exI [of _ "Suc k"]) simp
    qed
  qed
qed

text \<open>
  What \<^verbatim>\<open>or\<close> does for alternatives whose success carries a defined value. Each
  alternative runs under \<open>attempt\<close> from the stream \<open>s\<close>; a failing alternative leaves
  \<open>s\<close> as it was. If the alternatives before the \<open>k\<close>-th fail and the \<open>k\<close>-th succeeds
  with a defined value, \<^verbatim>\<open>or\<close> returns the success of the \<open>k\<close>-th, whatever the later
  ones would do. If there is at least one alternative and all fail, \<^verbatim>\<open>or\<close> returns
  the failure of an alternative \<open>k\<close> whose \<^verbatim>\<open>position.position\<close> is largest among all
  failures and strictly larger than that of every earlier alternative: among failures of
  equal position the earliest-listed one is returned.
\<close>

theorem or_parsers_choice:
  "(k < length parsers
      \<and> (\<forall>i<k. attempt (parsers ! i) s = returns (FailedParserResult (msg i) (pos i), s))
      \<and> attempt (parsers ! k) s = returns (SuccessfulParserResult (Some v), s')
    \<longrightarrow> or_parsers parsers s = returns (SuccessfulParserResult (Some v), s'))
   \<and> (parsers \<noteq> []
      \<and> (\<forall>i<length parsers.
            attempt (parsers ! i) s = returns (FailedParserResult (msg i) (pos i), s))
    \<longrightarrow> (\<exists>k<length parsers.
           or_parsers parsers s = returns (FailedParserResult (msg k) (pos k), s)
           \<and> (\<forall>i<length parsers. position_err (pos i) \<le> position_err (pos k))
           \<and> (\<forall>i<k. position_err (pos i) < position_err (pos k))))"
proof (intro conjI impI)
  assume "k < length parsers
      \<and> (\<forall>i<k. attempt (parsers ! i) s = returns (FailedParserResult (msg i) (pos i), s))
      \<and> attempt (parsers ! k) s = returns (SuccessfulParserResult (Some v), s')"
  then show "or_parsers parsers s = returns (SuccessfulParserResult (Some v), s')"
    unfolding or_parsers_def by (intro orLoop_first_success [where msg = msg and pos = pos]) auto
next
  assume a: "parsers \<noteq> []
      \<and> (\<forall>i<length parsers.
            attempt (parsers ! i) s = returns (FailedParserResult (msg i) (pos i), s))"
  then have "0 < length parsers" by simp
  with orLoop_all_fail [of parsers s msg pos NullResult "-1"] a
  show "\<exists>k<length parsers.
           or_parsers parsers s = returns (FailedParserResult (msg k) (pos k), s)
           \<and> (\<forall>i<length parsers. position_err (pos i) \<le> position_err (pos k))
           \<and> (\<forall>i<k. position_err (pos i) < position_err (pos k))"
    unfolding or_parsers_def by fastforce
qed

theorem or_parsers_choice_witness:
  "or_parsers [anyOf [''x''], anyOf [''letter''], anyOf [''y'']] letterStream
     = returns (SuccessfulParserResult (Some letterToken), letterStreamRead)
   \<and> or_parsers [anyOf [''x''], anyOf [''y'']] letterStream
       = returns (letterMismatch ''x'', letterStream)"
proof -
  let ?msg = "\<lambda>i::nat. ''Expected token of type '' @ (if i = 0 then ''x'' else ''y'')
                 @ '', but got letter''"
  let ?pos = "\<lambda>i::nat. \<lparr>line = 1, column = 2, position_err = 1\<rparr>"
  have x: "attempt (anyOf [''x'']) letterStream
      = returns (FailedParserResult (?msg 0) (?pos 0), letterStream)"
    using attempt_anyOf_mismatch [of "''x''"] by (simp add: letterMismatch_def)
  have y: "attempt (anyOf [''y'']) letterStream
      = returns (FailedParserResult (?msg 1) (?pos 1), letterStream)"
    using attempt_anyOf_mismatch [of "''y''"] by (simp add: letterMismatch_def)
  have first: "or_parsers [anyOf [''x''], anyOf [''letter''], anyOf [''y'']] letterStream
     = returns (SuccessfulParserResult (Some letterToken), letterStreamRead)"
    using or_parsers_choice
      [where parsers = "[anyOf [''x''], anyOf [''letter''], anyOf [''y'']]" and k = 1
        and s = letterStream and msg = ?msg and pos = ?pos and v = letterToken
        and s' = letterStreamRead]
      x attempt_anyOf_letterStream
    by simp
  have all: "\<forall>i<length [anyOf [''x''], anyOf [''y'']].
      attempt ([anyOf [''x''], anyOf [''y'']] ! i) letterStream
        = returns (FailedParserResult (?msg i) (?pos i), letterStream)"
    using x y by (simp add: less_Suc_eq)
  from or_parsers_choice
      [where parsers = "[anyOf [''x''], anyOf [''y'']]" and s = letterStream
        and msg = ?msg and pos = ?pos] all
  obtain k where k: "k < length [anyOf [''x''], anyOf [''y'']]"
      "or_parsers [anyOf [''x''], anyOf [''y'']] letterStream
         = returns (FailedParserResult (?msg k) (?pos k), letterStream)"
      "\<forall>i<k. position_err (?pos i) < position_err (?pos k)"
    by blast
  from k(3) have "k = 0" by (cases k) auto
  with k(2) have "or_parsers [anyOf [''x''], anyOf [''y'']] letterStream
       = returns (letterMismatch ''x'', letterStream)"
    by (simp add: letterMismatch_def)
  with first show ?thesis by simp
qed

text \<open>
  Claim C6. The claim expects \<^verbatim>\<open>or(p1, p2)\<close> to return the success of \<open>p1\<close> whenever
  \<open>p1\<close> and \<open>p2\<close> would both succeed. On the letter token, with
  \<open>p1\<close> = \<^verbatim>\<open>map(anyOf('letter'), t => undefined)\<close> and \<open>p2\<close> = \<^verbatim>\<open>anyOf('letter', 'digit')\<close>,
  both succeed: \<open>p1\<close> returns the successful result \<^verbatim>\<open>{ result: undefined }\<close> and \<open>p2\<close>
  returns the token. The code returns the success of \<open>p2\<close>: \<^verbatim>\<open>isSuccessfulResult\<close> tests
  \<^verbatim>\<open>result !== undefined\<close>, so \<open>attempt\<close> rewinds \<open>p1\<close> and the loop of \<^verbatim>\<open>or\<close> passes on to
  \<open>p2\<close>.
\<close>

theorem or_skips_undefined_success:
  "letterToUndefined letterStream = returns (SuccessfulParserResult None, letterStreamRead)
   \<and> anyOf [''letter'', ''digit''] letterStream
       = returns (SuccessfulParserResult (Some letterToken), letterStreamRead)
   \<and> or_parsers [letterToUndefined, anyOf [''letter'', ''digit'']] letterStream
       = returns (SuccessfulParserResult (Some letterToken), letterStreamRead)"
  by (simp add: or_parsers_def attempt_def letterToUndefined_def map_parser_def anyOf_def
      consume_def arrayAt_def storePosition_def clearPosition_def restorePosition_def
      letterStream_def letterStreamRead_def new_TokenStream_def letterToken_def)

text \<open>
  Claim C10. With no alternative, the loop of \<^verbatim>\<open>or\<close> does not run and the parser returns
  \<^verbatim>\<open>deepestError\<close>, still \<^verbatim>\<open>null\<close>, for every stream: a value that is neither the
  success nor the failure variant of a parser result.
\<close>

theorem or_parsers_empty:
  "or_parsers [] s = returns (NullResult, s)
   \<and> NullResult \<noteq> SuccessfulParserResult v
   \<and> NullResult \<noteq> FailedParserResult m e"
  by (simp add: or_parsers_def)

section \<open>Properties of the runner\<close>

text \<open>
  Claim C9, as stated: on success \<^verbatim>\<open>runParser\<close> returns the parsed value itself, not an
  object containing it. It fails for \<^verbatim>\<open>anyOf('letter')\<close> on the letter token:
  \<^verbatim>\<open>return test\<close> returns the result object \<^verbatim>\<open>{ result: token }\<close>, not the token.
\<close>

theorem runParser_returns_wrapper:
  "runParser (anyOf [''letter'']) letterStream
     = returns (SuccessfulParserResult (Some letterToken), letterStreamRead)"
  by (simp add: runParser_def anyOf_def consume_def arrayAt_def
      letterStream_def letterStreamRead_def new_TokenStream_def letterToken_def)

text \<open>
  Claim C9, amended: \<^verbatim>\<open>runParser(parser, tokenStream)\<close> applies the parser once (the
  stream is left as that one application leaves it); when the outcome is a failure it
  throws a \<^verbatim>\<open>ParserError\<close> whose message is \<^verbatim>\<open>Parser Error [line:column]: \<close> followed by the
  failure message and whose location is the failure position (line, column, position);
  when the outcome is a success it returns the successful result object
  \<^verbatim>\<open>{ result: value }\<close> as the parser returned it.
\<close>

theorem runParser_outcome:
  "(parser s = returns (FailedParserResult m e, s1)
      \<longrightarrow> runParser parser s
            = throws (ParserError (''Parser Error ['' @ string_of_nat (line e) @ '':''
                         @ string_of_nat (column e) @ '']: '' @ m) e))
   \<and> (parser s = returns (SuccessfulParserResult (Some v), s1)
      \<longrightarrow> runParser parser s = returns (SuccessfulParserResult (Some v), s1))"
  by (simp add: runParser_def new_ParserError_def)

lemma string_of_nat_digits: "string_of_nat (Suc 0) = ''1''" "string_of_nat 2 = ''2''"
  by code_simp+

theorem runParser_outcome_witness:
  "runParser (anyOf [''digit'']) letterStream
     = throws (ParserError
         ''Parser Error [1:2]: Expected token of type digit, but got letter''
         \<lparr>line = 1, column = 2, position_err = 1\<rparr>)
   \<and> runParser (anyOf [''letter'', ''digit'']) letterStream
       = returns (SuccessfulParserResult (Some letterToken), letterStreamRead)"
proof -
  have failed: "anyOf [''digit''] letterStream
      = returns (FailedParserResult ''Expected token of type digit, but got letter''
          \<lparr>line = 1, column = 2, position_err = 1\<rparr>, letterStreamRead)"
    by (simp add: anyOf_def consume_def arrayAt_def getPositionForError_def peek_def Let_def
      new_TokenStream_def letterToken_def typeOrEndOfInput_def letterStream_def
      letterStreamRead_def)
  have ok: "anyOf [''letter'', ''digit''] letterStream
      = returns (SuccessfulParserResult (Some letterToken), letterStreamRead)"
    by (simp add: anyOf_def consume_def arrayAt_def
      letterStream_def letterStreamRead_def new_TokenStream_def letterToken_def)
  from runParser_outcome
      [of "anyOf [''digit'']" letterStream "''Expected token of type digit, but got letter''"
        "\<lparr>line = 1, column = 2, position_err = 1\<rparr>" letterStreamRead]
    runParser_outcome
      [where parser = "anyOf [''letter'', ''digit'']" and s = letterStream
        and v = letterToken and ?s1.0 = letterStreamRead]
    failed ok
  show ?thesis by (simp add: string_of_nat_digits)
qed

end
